theory Spec2Isabelle
  imports Main
begin

section \<open>Values, errors and the outside world\<close>

text \<open>
  The program under verification is \<^verbatim>\<open>daily_briefing.py\<close>: three source adapters, a
  history store kept in a JSON file, a digest formatter that posts to a webhook, and
  \<^verbatim>\<open>main\<close>, which sequences them. Exceptions are values of type \<open>error\<close>; a function
  that can raise returns \<open>error + 'a\<close> with \<open>Inl\<close> for the exception.
\<close>

datatype exc_class =
  ConnectionError | JSONDecodeError | TypeError | KeyError | AttributeError | ValueError

datatype error = Exception exc_class string

text \<open>
  A value as \<^verbatim>\<open>json.load\<close> returns it. Numbers are integers here; booleans and
  fractions are hashable and not iterable like them and are not modelled apart.
\<close>

datatype json =
  JNull
| JNum int
| JStr string
| JArr "json list"
| JObj "(string \<times> json) list"

text \<open>
  An item is the dict the adapters build. The keys \<^verbatim>\<open>id\<close>, \<^verbatim>\<open>title\<close>,
  \<^verbatim>\<open>link\<close> and \<^verbatim>\<open>type\<close> are in every dict an adapter builds; \<^verbatim>\<open>likes\<close> is a
  key of the dicts of \<^verbatim>\<open>get_trending_models\<close> only, so it is optional here and
  reading it where it is absent is a \<^verbatim>\<open>KeyError\<close>.
\<close>

datatype item_kind = Paper | Model | News

record item =
  item_id :: string
  item_title :: string
  item_link :: string
  item_likes :: "int option"
  item_type :: item_kind

subsection \<open>Time\<close>

text \<open>
  A timezone-aware \<^verbatim>\<open>datetime\<close> is an instant, counted in microseconds since the
  epoch; the difference of two of them is a \<^verbatim>\<open>timedelta\<close>, here its length in
  microseconds. \<^verbatim>\<open>timedelta.days\<close> is the normalised day count: the floor of the
  length over one day, negative for a negative length.
\<close>

definition usec_per_day :: int where
  "usec_per_day = 86400 * 1000000"

definition timedelta_days :: "int \<Rightarrow> int" where
  "timedelta_days delta = delta div usec_per_day"

section \<open>Source adapters\<close>

subsection \<open>Trending models\<close>

text \<open>
  What \<^verbatim>\<open>HfApi.list_models\<close> hands back is a lazy iterable: it yields model records
  one by one and may raise while it is being iterated (the HTTP requests happen
  then). \<open>Listing ms failure\<close> yields \<open>ms\<close> in order and then stops
  (\<open>failure = None\<close>) or raises (\<open>failure = Some e\<close>).
\<close>

record model_info =
  modelId :: string
  lastModified :: "int option"
  likes :: int

datatype listing = Listing "model_info list" "error option"

text \<open>
  \<^verbatim>\<open>datetime.now().astimezone() - m.lastModified\<close>: subtracting a missing timestamp
  raises \<^verbatim>\<open>TypeError\<close>.
\<close>

definition sub_datetime :: "int \<Rightarrow> int option \<Rightarrow> error + int" where
  "sub_datetime now lm =
     (case lm of
        None \<Rightarrow> Inl (Exception TypeError ''unsupported operand type(s) for -'')
      | Some t \<Rightarrow> Inr (now - t))"

text \<open>
  The condition of line 55, \<^verbatim>\<open>m.lastModified and (now - m.lastModified).days < 2\<close>.
  Python's \<^verbatim>\<open>and\<close> evaluates its right operand only when the left one is truthy; a
  \<^verbatim>\<open>datetime\<close> is always truthy and \<^verbatim>\<open>None\<close> never is.
\<close>

definition truthy :: "int option \<Rightarrow> bool" where
  "truthy lm = (lm \<noteq> None)"

definition is_recent :: "int \<Rightarrow> model_info \<Rightarrow> error + bool" where
  "is_recent now m =
     (if truthy (lastModified m)
      then (case sub_datetime now (lastModified m) of
              Inl e \<Rightarrow> Inl e
            | Inr delta \<Rightarrow> Inr (timedelta_days delta < 2))
      else Inr False)"

definition model_item :: "model_info \<Rightarrow> item" where
  "model_item m =
     \<lparr> item_id = modelId m,
       item_title = modelId m,
       item_link = ''https://huggingface.co/'' @ modelId m,
       item_likes = Some (likes m),
       item_type = Model \<rparr>"

text \<open>
  The loop of lines 53 to 63. \<open>now k\<close> is what \<^verbatim>\<open>datetime.now().astimezone()\<close>
  returns during iteration \<open>k\<close> (the clock is read anew on every iteration);
  \<open>new_models\<close> is the list accumulated so far. The \<^verbatim>\<open>break\<close> leaves the loop
  without asking the iterable for another element.
\<close>

fun scan_models ::
  "(nat \<Rightarrow> int) \<Rightarrow> nat \<Rightarrow> model_info list \<Rightarrow> error option \<Rightarrow> item list \<Rightarrow> error + item list"
where
  "scan_models now k [] failure new_models =
     (case failure of None \<Rightarrow> Inr new_models | Some e \<Rightarrow> Inl e)"
| "scan_models now k (m # ms) failure new_models =
     (case is_recent (now k) m of
        Inl e \<Rightarrow> Inl e
      | Inr True \<Rightarrow>
          (let new_models' = new_models @ [model_item m]
           in if length new_models' \<ge> 5 then Inr new_models'
              else scan_models now (Suc k) ms failure new_models')
      | Inr False \<Rightarrow> scan_models now (Suc k) ms failure new_models)"

fun get_trending_models :: "(nat \<Rightarrow> int) \<Rightarrow> listing \<Rightarrow> error + item list" where
  "get_trending_models now (Listing ms failure) = scan_models now 0 ms failure []"

subsection \<open>The world the program acts on\<close>

text \<open>
  The effects of a run are the contents of the history file and the calls made to the
  outside, in order. The outside's answers (HTTP responses, feeds, the clock, the order
  in which a Python set is iterated) are the fields of \<open>env\<close>.
\<close>

record field =
  field_name :: string
  field_value :: string
  field_inline :: bool

record embed =
  embed_title :: string
  embed_description :: string
  embed_color :: int
  embed_fields :: "field list"
  embed_footer :: string

datatype file_content = Malformed | Json json

datatype event =
  Print string
| PathExists
| OpenRead
| OpenWrite "json list"
| HttpGet string
| ListModels
| ParseFeed string
| HttpPost "string option" "embed list"

record world =
  history_file :: "file_content option"
  trace :: "event list"

definition emit :: "event \<Rightarrow> world \<Rightarrow> world" where
  "emit ev w = w\<lparr>trace := trace w @ [ev]\<rparr>"

record http_response =
  status_code :: int
  json_body :: "error + (string \<rightharpoonup> (string \<rightharpoonup> string)) list"

record feed_entry =
  entry_link :: "string option"
  entry_title :: "string option"
  published_parsed :: "int option"

record env =
  WEBHOOK_URL :: "string option"
  today :: string
  papers_get :: "error + http_response"
  models_listing :: listing
  models_now :: "nat \<Rightarrow> int"
  parse_feed :: "string \<Rightarrow> error + feed_entry list"
  news_now :: "nat \<Rightarrow> int"
  post_raises :: "error option"
  briefing_date :: string
  list_of_set :: "json set \<Rightarrow> json list"

subsection \<open>Daily papers\<close>

text \<open>
  One element of the response: \<^verbatim>\<open>p = paper["paper"]\<close>, then \<^verbatim>\<open>p["id"]\<close> and
  \<^verbatim>\<open>p["title"]\<close>; a missing key raises \<^verbatim>\<open>KeyError\<close>.
\<close>

definition paper_item :: "(string \<rightharpoonup> (string \<rightharpoonup> string)) \<Rightarrow> error + item" where
  "paper_item paper =
     (case paper ''paper'' of
        None \<Rightarrow> Inl (Exception KeyError ''paper'')
      | Some p \<Rightarrow>
          (case p ''id'' of
             None \<Rightarrow> Inl (Exception KeyError ''id'')
           | Some pid \<Rightarrow>
               (case p ''title'' of
                  None \<Rightarrow> Inl (Exception KeyError ''title'')
                | Some t \<Rightarrow>
                    Inr \<lparr> item_id = pid,
                          item_title = t,
                          item_link = ''https://huggingface.co/papers/'' @ pid,
                          item_likes = None,
                          item_type = Paper \<rparr>)))"

fun collect_papers ::
  "(string \<rightharpoonup> (string \<rightharpoonup> string)) list \<Rightarrow> item list \<Rightarrow> error + item list"
where
  "collect_papers [] papers = Inr papers"
| "collect_papers (paper # rest) papers =
     (case paper_item paper of
        Inl e \<Rightarrow> Inl e
      | Inr it \<Rightarrow> collect_papers rest (papers @ [it]))"

text \<open>The body of the \<^verbatim>\<open>try\<close> block, lines 20 to 36.\<close>

definition papers_try :: "env \<Rightarrow> error + item list" where
  "papers_try e =
     (case papers_get e of
        Inl err \<Rightarrow> Inl err
      | Inr response \<Rightarrow>
          if status_code response \<noteq> 200 then Inr []
          else (case json_body response of
                  Inl err \<Rightarrow> Inl err
                | Inr data \<Rightarrow> collect_papers (take 5 data) []))"

definition get_huggingface_daily_papers :: "env \<Rightarrow> world \<Rightarrow> item list \<times> world" where
  "get_huggingface_daily_papers e w =
     (let url = ''https://huggingface.co/api/daily_papers?date='' @ today e;
          w1 = emit (HttpGet url) w
      in case papers_try e of
           Inl (Exception c msg) \<Rightarrow> ([], emit (Print (''Error fetching papers: '' @ msg)) w1)
         | Inr papers \<Rightarrow> (papers, w1))"

subsection \<open>Lab news\<close>

definition feeds :: "(string \<times> string) list" where
  "feeds =
     [(''OpenAI'', ''https://openai.com/index.xml''),
      (''Anthropic'', ''https://www.anthropic.com/feed''),
      (''DeepMind'', ''https://deepmind.google/blog/rss.xml''),
      (''Hugging Face'', ''https://huggingface.co/blog/feed.xml'')]"

text \<open>
  The body of the \<^verbatim>\<open>try\<close> block once the feed is parsed, lines 80 to 91: the item to
  append, if any. \<open>published_parsed\<close> is the naive \<^verbatim>\<open>datetime\<close> built from the
  entry's fields and \<open>now\<close> the naive \<^verbatim>\<open>datetime.now()\<close>, both in microseconds.
\<close>

definition news_entry :: "int \<Rightarrow> string \<Rightarrow> feed_entry list \<Rightarrow> error + item option" where
  "news_entry now source entries =
     (case entries of
        [] \<Rightarrow> Inr None
      | entry # _ \<Rightarrow>
          (case published_parsed entry of
             None \<Rightarrow> Inl (Exception TypeError ''published_parsed'')
           | Some published \<Rightarrow>
               if timedelta_days (now - published) < 1
               then (case entry_link entry of
                       None \<Rightarrow> Inl (Exception AttributeError ''link'')
                     | Some l \<Rightarrow>
                         (case entry_title entry of
                            None \<Rightarrow> Inl (Exception AttributeError ''title'')
                          | Some t \<Rightarrow>
                              Inr (Some \<lparr> item_id = l,
                                          item_title = source @ '': '' @ t,
                                          item_link = l,
                                          item_likes = None,
                                          item_type = News \<rparr>)))
               else Inr None))"

fun scan_feeds ::
  "env \<Rightarrow> nat \<Rightarrow> (string \<times> string) list \<Rightarrow> item list \<Rightarrow> world \<Rightarrow> item list \<times> world"
where
  "scan_feeds e k [] news w = (news, w)"
| "scan_feeds e k ((source, url) # rest) news w =
     (let w1 = emit (ParseFeed url) w
      in case (case parse_feed e url of
                 Inl err \<Rightarrow> Inl err
               | Inr entries \<Rightarrow> news_entry (news_now e k) source entries) of
           Inl err \<Rightarrow> scan_feeds e (Suc k) rest news w1
         | Inr None \<Rightarrow> scan_feeds e (Suc k) rest news w1
         | Inr (Some it) \<Rightarrow> scan_feeds e (Suc k) rest (news @ [it]) w1)"

definition get_lab_news :: "env \<Rightarrow> world \<Rightarrow> item list \<times> world" where
  "get_lab_news e w = scan_feeds e 0 feeds [] w"

section \<open>History store\<close>

text \<open>
  \<^verbatim>\<open>set(json.load(f))\<close>: a list gives the set of its elements, which must be
  hashable; a dict gives its keys and a string its characters; a number or
  \<^verbatim>\<open>null\<close> is not iterable.
\<close>

fun hashable :: "json \<Rightarrow> bool" where
  "hashable (JArr xs) = False"
| "hashable (JObj kvs) = False"
| "hashable j = True"

fun py_set :: "json \<Rightarrow> error + json set" where
  "py_set (JArr xs) =
     (if list_all hashable xs then Inr (set xs)
      else Inl (Exception TypeError ''unhashable type''))"
| "py_set (JObj kvs) = Inr (set (map (\<lambda>kv. JStr (fst kv)) kvs))"
| "py_set (JStr s) = Inr (set (map (\<lambda>c. JStr [c]) s))"
| "py_set j = Inl (Exception TypeError ''object is not iterable'')"

definition load_history :: "world \<Rightarrow> (error + json set) \<times> world" where
  "load_history w =
     (let w1 = emit PathExists w
      in case history_file w of
           None \<Rightarrow> (Inr {}, w1)
         | Some content \<Rightarrow>
             (case content of
                Malformed \<Rightarrow> Inl (Exception JSONDecodeError ''Expecting value'')
              | Json j \<Rightarrow> py_set j,
              emit OpenRead w1))"

text \<open>\<^verbatim>\<open>xs[-n:]\<close> for a positive \<open>n\<close>: the last \<open>n\<close> elements, all of \<open>xs\<close> when it is shorter.\<close>

definition last_n :: "nat \<Rightarrow> 'a list \<Rightarrow> 'a list" where
  "last_n n xs = drop (length xs - n) xs"

definition save_history ::
  "(json set \<Rightarrow> json list) \<Rightarrow> json set \<Rightarrow> json set \<Rightarrow> world \<Rightarrow> world"
where
  "save_history to_list new_ids old_history w =
     (let updated = last_n 1000 (to_list (old_history \<union> new_ids))
      in emit (OpenWrite updated) (w\<lparr>history_file := Some (Json (JArr updated))\<rparr>))"

section \<open>Digest formatter and publisher\<close>

text \<open>
  Strings are byte strings: a character of the source outside ASCII is written as its
  UTF-8 bytes (the bullet U+2022, the star U+2B50, and the three section emoji).
\<close>

definition bullet :: string where
  "bullet = [CHR 0xE2, CHR 0x80, CHR 0xA2]"

definition star :: string where
  "star = [CHR 0xE2, CHR 0xAD, CHR 0x90]"

definition news_heading :: string where
  "news_heading = [CHR 0xF0, CHR 0x9F, CHR 0x93, CHR 0xA2] @ '' Industry News''"

definition models_heading :: string where
  "models_heading = [CHR 0xF0, CHR 0x9F, CHR 0x9A, CHR 0x80] @ '' Trending Models''"

definition papers_heading :: string where
  "papers_heading = [CHR 0xF0, CHR 0x9F, CHR 0x93, CHR 0x9A] @ '' Daily Papers''"

text \<open>\<^verbatim>\<open>str\<close> of an integer.\<close>

fun show_nat :: "nat \<Rightarrow> string" where
  "show_nat n =
     (if n < 10 then [char_of (48 + n)]
      else show_nat (n div 10) @ [char_of (48 + n mod 10)])"

declare show_nat.simps [simp del]

definition show_int :: "int \<Rightarrow> string" where
  "show_int i = (if i < 0 then ''-'' @ show_nat (nat (- i)) else show_nat (nat i))"

text \<open>\<^verbatim>\<open>sep.join(xs)\<close>.\<close>

fun join :: "string \<Rightarrow> string list \<Rightarrow> string" where
  "join sep [] = []"
| "join sep [x] = x"
| "join sep (x # y # ys) = x @ sep @ join sep (y # ys)"

text \<open>The line of a news item or a paper, lines 122 and 131.\<close>

definition link_line :: "item \<Rightarrow> string" where
  "link_line n = bullet @ '' **['' @ item_title n @ '']('' @ item_link n @ '')**''"

text \<open>The line of a model, line 127; \<^verbatim>\<open>m['likes']\<close> raises when the key is absent.\<close>

definition model_line :: "item \<Rightarrow> error + string" where
  "model_line m =
     (case item_likes m of
        None \<Rightarrow> Inl (Exception KeyError ''likes'')
      | Some l \<Rightarrow>
          Inr (bullet @ '' **['' @ item_title m @ '']('' @ item_link m @ '')** (''
               @ star @ '' '' @ show_int l @ '')''))"

fun model_lines :: "item list \<Rightarrow> error + string list" where
  "model_lines [] = Inr []"
| "model_lines (m # ms) =
     (case model_line m of
        Inl e \<Rightarrow> Inl e
      | Inr l \<Rightarrow> (case model_lines ms of Inl e \<Rightarrow> Inl e | Inr ls \<Rightarrow> Inr (l # ls)))"

text \<open>Lines 114 to 132: the three comprehensions, then the appends to \<^verbatim>\<open>fields\<close>.\<close>

definition build_fields :: "item list \<Rightarrow> error + field list" where
  "build_fields items =
     (let papers = filter (\<lambda>i. item_type i = Paper) items;
          models = filter (\<lambda>i. item_type i = Model) items;
          news = filter (\<lambda>i. item_type i = News) items;
          fields0 = [];
          fields1 =
            (if news \<noteq> []
             then fields0 @ [\<lparr> field_name = news_heading,
                               field_value = join [CHR 0x0A] (map link_line news),
                               field_inline = False \<rparr>]
             else fields0)
      in case (if models \<noteq> []
               then (case model_lines models of
                       Inl e \<Rightarrow> Inl e
                     | Inr ls \<Rightarrow>
                         Inr (fields1 @ [\<lparr> field_name = models_heading,
                                             field_value = join [CHR 0x0A] ls,
                                             field_inline = False \<rparr>]))
               else Inr fields1) of
           Inl e \<Rightarrow> Inl e
         | Inr fields2 \<Rightarrow>
             Inr (if papers \<noteq> []
                  then fields2 @ [\<lparr> field_name = papers_heading,
                                      field_value = join [CHR 0x0A] (map link_line papers),
                                      field_inline = False \<rparr>]
                  else fields2))"

text \<open>Lines 135 to 143: the payload, a single embed.\<close>

definition payload :: "string \<Rightarrow> field list \<Rightarrow> embed list" where
  "payload date fs =
     [\<lparr> embed_title = ''Daily AI Briefing '' @ bullet @ '' '' @ date,
        embed_description = ''Here are the top trending updates for today.'',
        embed_color = 3447003,
        embed_fields = fs,
        embed_footer = ''Sources: Hugging Face & Corporate Blogs'' \<rparr>]"

text \<open>
  \<^verbatim>\<open>requests.post\<close> is called once; it raises or returns, and what it returns is not
  looked at.
\<close>

definition send_discord_digest :: "env \<Rightarrow> item list \<Rightarrow> world \<Rightarrow> error option \<times> world" where
  "send_discord_digest e items w =
     (if items = [] then (None, w)
      else case build_fields items of
             Inl err \<Rightarrow> (Some err, w)
           | Inr digest_fields \<Rightarrow>
               (post_raises e,
                emit (HttpPost (WEBHOOK_URL e) (payload (briefing_date e) digest_fields)) w))"

section \<open>Orchestrator\<close>

text \<open>\<^verbatim>\<open>not WEBHOOK_URL\<close> holds for an unset variable and for the empty string.\<close>

definition str_truthy :: "string option \<Rightarrow> bool" where
  "str_truthy url = (case url of None \<Rightarrow> False | Some s \<Rightarrow> s \<noteq> [])"

text \<open>
  Line 155: the three adapters are called in turn and their lists concatenated. An
  exception of \<^verbatim>\<open>get_trending_models\<close> is not caught here.
\<close>

definition fetch_candidates :: "env \<Rightarrow> world \<Rightarrow> (error + item list) \<times> world" where
  "fetch_candidates e w =
     (case get_huggingface_daily_papers e w of
        (papers, w1) \<Rightarrow>
          (let w2 = emit ListModels w1
           in case get_trending_models (models_now e) (models_listing e) of
                Inl err \<Rightarrow> (Inl err, w2)
              | Inr models \<Rightarrow>
                  (case get_lab_news e w2 of
                     (news, w3) \<Rightarrow> (Inr (papers @ models @ news), w3))))"

definition main :: "env \<Rightarrow> world \<Rightarrow> error option \<times> world" where
  "main e w =
     (if \<not> str_truthy (WEBHOOK_URL e)
      then (None, emit (Print ''No Webhook URL found.'') w)
      else case load_history w of
             (Inl err, w1) \<Rightarrow> (Some err, w1)
           | (Inr history, w1) \<Rightarrow>
               (case fetch_candidates e w1 of
                  (Inl err, w2) \<Rightarrow> (Some err, w2)
                | (Inr candidates, w2) \<Rightarrow>
                    (let new_items = filter (\<lambda>item. JStr (item_id item) \<notin> history) candidates
                     in if new_items \<noteq> []
                        then (let w3 = emit (Print (''Found '' @ show_nat (length new_items)
                                                     @ '' new items. Sending digest...'')) w2
                              in case send_discord_digest e new_items w3 of
                                   (Some err, w4) \<Rightarrow> (Some err, w4)
                                 | (None, w4) \<Rightarrow>
                                     (let new_ids = (\<lambda>item. JStr (item_id item)) ` set new_items
                                      in (None, save_history (list_of_set e) new_ids history w4)))
                        else (None, emit (Print ''No new items to report.'') w2))))"

section \<open>Reference definitions\<close>

text \<open>
  The properties below are stated against these definitions, which say in one line what
  the loops above compute step by step.
\<close>

text \<open>
  A candidate passes the recency test at time \<open>now\<close> when its timestamp is present and
  fewer than two whole days lie between it and \<open>now\<close>. \<open>matching now k ms\<close> are the
  candidates of \<open>ms\<close> that pass, in order, the first one examined at iteration \<open>k\<close>.
\<close>

definition recent :: "int \<Rightarrow> model_info \<Rightarrow> bool" where
  "recent now m = (case lastModified m of None \<Rightarrow> False | Some t \<Rightarrow> timedelta_days (now - t) < 2)"

fun matching :: "(nat \<Rightarrow> int) \<Rightarrow> nat \<Rightarrow> model_info list \<Rightarrow> model_info list" where
  "matching now k [] = []"
| "matching now k (m # ms) =
     (if recent (now k) m then m # matching now (Suc k) ms else matching now (Suc k) ms)"

text \<open>
  Events by kind, and a run segment that neither publishes nor writes the history file:
  the file is what it was and every event added is neither a post nor a write.
\<close>

fun is_post :: "event \<Rightarrow> bool" where
  "is_post (HttpPost url body) = True"
| "is_post ev = False"

fun is_write :: "event \<Rightarrow> bool" where
  "is_write (OpenWrite xs) = True"
| "is_write ev = False"

definition quiet :: "event \<Rightarrow> bool" where
  "quiet ev = (\<not> is_post ev \<and> \<not> is_write ev)"

definition extends_quietly :: "world \<Rightarrow> world \<Rightarrow> bool" where
  "extends_quietly w w' =
     (history_file w' = history_file w \<and>
      (\<exists>evs. trace w' = trace w @ evs \<and> list_all quiet evs))"

text \<open>
  The values \<^verbatim>\<open>set(...)\<close> accepts: an array of hashable elements, an object or a
  string.
\<close>

fun loadable :: "json \<Rightarrow> bool" where
  "loadable (JArr xs) = list_all hashable xs"
| "loadable (JObj kvs) = True"
| "loadable (JStr s) = True"
| "loadable j = False"

text \<open>
  The number of entries the history file holds, and the world after a sequence of runs,
  each in an environment of its own.
\<close>

fun entries :: "file_content option \<Rightarrow> nat" where
  "entries (Some (Json (JArr xs))) = length xs"
| "entries (Some (Json (JObj kvs))) = length kvs"
| "entries (Some (Json (JStr s))) = length s"
| "entries content = 0"



text \<open>
  The digest as the specification describes it: the items are partitioned by type, each
  non-empty bucket becomes one section listing its items in their order in the input,
  and the sections stand in the order News, Models, Papers.
\<close>

definition heading :: "item_kind \<Rightarrow> string" where
  "heading k = (case k of News \<Rightarrow> news_heading | Model \<Rightarrow> models_heading | Paper \<Rightarrow> papers_heading)"

definition digest_line :: "item \<Rightarrow> string" where
  "digest_line i =
     (case item_type i of
        Model \<Rightarrow> (case model_line i of Inr l \<Rightarrow> l | Inl e \<Rightarrow> [])
      | Paper \<Rightarrow> link_line i
      | News \<Rightarrow> link_line i)"

definition section_for :: "item_kind \<Rightarrow> item list \<Rightarrow> field list" where
  "section_for k items =
     (let bucket = filter (\<lambda>i. item_type i = k) items
      in if bucket = [] then []
         else [\<lparr> field_name = heading k,
                 field_value = join [CHR 0x0A] (map digest_line bucket),
                 field_inline = False \<rparr>])"

definition digest_sections :: "item list \<Rightarrow> field list" where
  "digest_sections items = section_for News items @ section_for Model items @ section_for Paper items"

section \<open>Concrete inputs\<close>

text \<open>
  A clock that advances by a microsecond per iteration from the start of day 3; five
  models modified a day before and a sixth modified last of all; a model at the boundary
  and one two days old.
\<close>

definition listed :: "string \<Rightarrow> int option \<Rightarrow> model_info" where
  "listed name lm = \<lparr> modelId = name, lastModified = lm, likes = 7 \<rparr>"

definition ticking :: "nat \<Rightarrow> int" where
  "ticking k = 3 * usec_per_day + int k"

definition six_recent :: "model_info list" where
  "six_recent =
     [listed ''m1'' (Some (2 * usec_per_day)),
      listed ''m2'' (Some (2 * usec_per_day)),
      listed ''m3'' (Some (2 * usec_per_day)),
      listed ''m4'' (Some (2 * usec_per_day)),
      listed ''m5'' (Some (2 * usec_per_day)),
      listed ''m6'' (Some (3 * usec_per_day))]"

definition boundary_pair :: "model_info list" where
  "boundary_pair =
     [listed ''fresh'' (Some (2 * usec_per_day)), listed ''stale'' (Some usec_per_day)]"

text \<open>
  The scenario of the specification: the papers endpoint returns the papers \<open>A\<close> and
  \<open>B\<close>, no model is listed and every feed is empty. A set is iterated in the order of a
  reference list.
\<close>

definition hook :: string where
  "hook = ''https://discord.example/api/webhooks/1''"

definition paper_entry :: "string \<Rightarrow> string \<Rightarrow> (string \<rightharpoonup> (string \<rightharpoonup> string))" where
  "paper_entry pid t = [''paper'' \<mapsto> [''id'' \<mapsto> pid, ''title'' \<mapsto> t]]"

definition order_as :: "json list \<Rightarrow> json set \<Rightarrow> json list" where
  "order_as ref S = filter (\<lambda>x. x \<in> S) ref"

definition scenario_env :: env where
  "scenario_env =
     \<lparr> WEBHOOK_URL = Some hook,
       today = ''2026-01-02'',
       papers_get = Inr \<lparr> status_code = 200,
                          json_body = Inr [paper_entry ''A'' ''T0'', paper_entry ''B'' ''T''] \<rparr>,
       models_listing = Listing [] None,
       models_now = ticking,
       parse_feed = (\<lambda>url. Inr []),
       news_now = ticking,
       post_raises = None,
       briefing_date = ''Jan 02'',
       list_of_set = order_as [JStr ''A'', JStr ''B''] \<rparr>"

definition paper_A :: item where
  "paper_A = \<lparr> item_id = ''A'', item_title = ''T0'',
               item_link = ''https://huggingface.co/papers/A'',
               item_likes = None, item_type = Paper \<rparr>"

definition paper_B :: item where
  "paper_B = \<lparr> item_id = ''B'', item_title = ''T'',
               item_link = ''https://huggingface.co/papers/B'',
               item_likes = None, item_type = Paper \<rparr>"

definition mixed_items :: "item list" where
  "mixed_items = [paper_B, model_item (listed ''m1'' None), paper_A]"

text \<open>
  History files: none, one that holds the first paper, one that holds both, a truncated
  one, and the number 5.
\<close>

definition no_history :: world where
  "no_history = \<lparr> history_file = None, trace = [] \<rparr>"

definition seen_A :: world where
  "seen_A = \<lparr> history_file = Some (Json (JArr [JStr ''A''])), trace = [] \<rparr>"

definition seen_AB :: world where
  "seen_AB = \<lparr> history_file = Some (Json (JArr [JStr ''A'', JStr ''B''])), trace = [] \<rparr>"

definition malformed_file :: world where
  "malformed_file = \<lparr> history_file = Some Malformed, trace = [] \<rparr>"

definition number_file :: world where
  "number_file = \<lparr> history_file = Some (Json (JNum 5)), trace = [] \<rparr>"

text \<open>Every source is unreachable.\<close>

definition outage :: error where
  "outage = Exception ConnectionError ''Max retries exceeded''"

definition outage_env :: env where
  "outage_env =
     scenario_env \<lparr> papers_get := Inl outage,
                    models_listing := Listing [] (Some outage),
                    parse_feed := (\<lambda>url. Inl outage) \<rparr>"

text \<open>
  A history file at the cap of 1000 ids, and a run in which the papers endpoint returns
  the one paper \<open>B\<close> and the set of old and new ids is iterated with \<open>B\<close> first.
\<close>

definition seen_1000 :: "json list" where
  "seen_1000 = map (\<lambda>n. JStr (replicate (Suc n) CHR ''x'')) [0..<1000]"

definition full_history :: world where
  "full_history = \<lparr> history_file = Some (Json (JArr seen_1000)), trace = [] \<rparr>"

definition evicting_env :: env where
  "evicting_env =
     scenario_env \<lparr> papers_get := Inr \<lparr> status_code = 200,
                                         json_body = Inr [paper_entry ''B'' ''T''] \<rparr>,
                    list_of_set := order_as (JStr ''B'' # seen_1000) \<rparr>"

section \<open>The models adapter\<close>

lemma is_recent_eq: "is_recent now m = Inr (recent now m)"
  by (simp add: is_recent_def recent_def truthy_def sub_datetime_def split: option.splits)

lemma scan_models_eq:
  "length acc < 5 \<Longrightarrow>
   scan_models now k ms failure acc =
     (if 5 \<le> length acc + length (matching now k ms)
      then Inr (take 5 (acc @ map model_item (matching now k ms)))
      else case failure of
             None \<Rightarrow> Inr (acc @ map model_item (matching now k ms))
           | Some e \<Rightarrow> Inl e)"
proof (induction ms arbitrary: k acc)
  case Nil
  then show ?case by (simp split: option.splits)
next
  case (Cons m ms)
  show ?case
  proof (cases "recent (now k) m")
    case False
    then show ?thesis using Cons by (simp add: is_recent_eq split: option.splits)
  next
    case True
    show ?thesis
    proof (cases "length acc = 4")
      case True
      with \<open>recent (now k) m\<close> show ?thesis by (simp add: is_recent_eq split: option.splits)
    next
      case False
      with Cons.prems have "length (acc @ [model_item m]) < 5" by simp
      from Cons.IH [OF this, of "Suc k"] \<open>recent (now k) m\<close> False Cons.prems
      show ?thesis by (simp add: is_recent_eq Let_def split: option.splits)
    qed
  qed
qed

lemma matching_append:
  "matching now k (xs @ ys) = matching now k xs @ matching now (k + length xs) ys"
  by (induction xs arbitrary: k) auto



lemma matching_six: "matching ticking 0 six_recent = six_recent"
  by (simp add: six_recent_def listed_def recent_def ticking_def timedelta_days_def usec_per_day_def)

text \<open>
  Claim C6. For every candidate list, the models adapter returns the first five
  candidates that pass the recency test, in the order of the list, and all of them when
  fewer pass. It stops at the fifth: whatever the listing would yield after it, more
  models or an exception, is never asked for. No result has more than five elements.
\<close>

theorem first_five_recent:
  "get_trending_models now (Listing ms None) = Inr (map model_item (take 5 (matching now 0 ms)))
   \<and> (5 \<le> length (matching now 0 ms) \<longrightarrow>
        get_trending_models now (Listing (ms @ rest) failure)
          = Inr (map model_item (take 5 (matching now 0 ms))))
   \<and> (\<forall>r. get_trending_models now (Listing ms failure) = Inr r \<longrightarrow> length r \<le> 5)"
proof (intro conjI allI impI)
  show "get_trending_models now (Listing ms None) = Inr (map model_item (take 5 (matching now 0 ms)))"
    by (simp add: scan_models_eq take_map)
next
  assume "5 \<le> length (matching now 0 ms)"
  then show "get_trending_models now (Listing (ms @ rest) failure)
          = Inr (map model_item (take 5 (matching now 0 ms)))"
    by (simp add: scan_models_eq matching_append take_map)
next
  fix r assume "get_trending_models now (Listing ms failure) = Inr r"
  then show "length r \<le> 5"
    by (auto simp: scan_models_eq split: if_splits option.splits)
qed

text \<open>
  At the six models with a failing listing behind them: the first five are returned, the
  exception is never reached, and the model modified last of all is not among them.
\<close>

theorem first_five_recent_witness:
  "5 \<le> length (matching ticking 0 six_recent)
   \<and> get_trending_models ticking
         (Listing (six_recent @ [listed ''late'' (Some (3 * usec_per_day))])
                  (Some (Exception ConnectionError ''reset'')))
       = Inr (map model_item (take 5 six_recent))
   \<and> model_item (listed ''m6'' (Some (3 * usec_per_day))) \<notin> set (map model_item (take 5 six_recent))"
  using first_five_recent [of ticking six_recent "[listed ''late'' (Some (3 * usec_per_day))]"
      "Some (Exception ConnectionError ''reset'')"]
  by (simp add: matching_six) (simp add: six_recent_def listed_def model_item_def)




text \<open>
  Claim C10. The condition of the loop never raises. A candidate without a timestamp
  fails it before the subtraction is reached, the loop goes on with the next candidate
  and the accumulated list unchanged, and every item returned comes from a candidate
  whose timestamp is present.
\<close>

theorem missing_timestamp_is_skipped:
  "is_recent now m \<noteq> Inl e
   \<and> (lastModified m = None \<longrightarrow>
        is_recent now m = Inr False
        \<and> scan_models clock k (m # ms) failure acc = scan_models clock (Suc k) ms failure acc)
   \<and> (\<exists>r. get_trending_models clock (Listing cs None) = Inr r
            \<and> (\<forall>it \<in> set r. \<exists>c \<in> set cs. it = model_item c \<and> lastModified c \<noteq> None))"
proof (intro conjI impI)
  show "is_recent now m \<noteq> Inl e" by (simp add: is_recent_eq)
next
  assume "lastModified m = None"
  then show "is_recent now m = Inr False" by (simp add: is_recent_eq recent_def)
next
  assume "lastModified m = None"
  then show "scan_models clock k (m # ms) failure acc = scan_models clock (Suc k) ms failure acc"
    by (simp add: is_recent_eq recent_def)
next
  have *: "c \<in> set (matching clock k cs) \<Longrightarrow> c \<in> set cs \<and> lastModified c \<noteq> None" for c k
    by (induction cs arbitrary: k) (auto simp: recent_def split: option.splits if_splits)
  have "\<forall>it \<in> set (map model_item (take 5 (matching clock 0 cs))).
               \<exists>c \<in> set cs. it = model_item c \<and> lastModified c \<noteq> None"
  proof
    fix it assume "it \<in> set (map model_item (take 5 (matching clock 0 cs)))"
    then obtain c where c: "c \<in> set (take 5 (matching clock 0 cs))" "it = model_item c"
      unfolding set_map by (rule imageE)
    from c(1) have "c \<in> set (matching clock 0 cs)" by (rule in_set_takeD)
    with * c(2) show "\<exists>c \<in> set cs. it = model_item c \<and> lastModified c \<noteq> None" by blast
  qed
  then show "\<exists>r. get_trending_models clock (Listing cs None) = Inr r
            \<and> (\<forall>it \<in> set r. \<exists>c \<in> set cs. it = model_item c \<and> lastModified c \<noteq> None)"
    by (simp add: scan_models_eq take_map)
qed

theorem missing_timestamp_is_skipped_witness:
  "lastModified (listed ''bare'' None) = None
   \<and> is_recent (ticking 0) (listed ''bare'' None) = Inr False
   \<and> scan_models ticking 0 (listed ''bare'' None # boundary_pair) None []
       = scan_models ticking 1 boundary_pair None []"
  using missing_timestamp_is_skipped [of "ticking 0" "listed ''bare'' None" _ ticking 0 boundary_pair None "[]"]
  by (simp add: listed_def)

section \<open>What a run leaves untouched\<close>

lemma history_file_emit [simp]: "history_file (emit ev w) = history_file w"
  by (simp add: emit_def)

lemma trace_emit [simp]: "trace (emit ev w) = trace w @ [ev]"
  by (simp add: emit_def)

lemma extends_quietly_refl: "extends_quietly w w"
  by (simp add: extends_quietly_def)

lemma extends_quietly_trans:
  "extends_quietly w w1 \<Longrightarrow> extends_quietly w1 w2 \<Longrightarrow> extends_quietly w w2"
  by (auto simp: extends_quietly_def)

lemma extends_quietly_emit: "quiet ev \<Longrightarrow> extends_quietly w (emit ev w)"
  by (simp add: extends_quietly_def)

lemma extends_quietly_filter:
  "extends_quietly w w' \<Longrightarrow>
     filter is_post (trace w') = filter is_post (trace w)
     \<and> filter is_write (trace w') = filter is_write (trace w)"
  by (auto simp: extends_quietly_def quiet_def list_all_iff filter_empty_conv)

lemma papers_quiet: "extends_quietly w (snd (get_huggingface_daily_papers e w))"
proof -
  have 1: "extends_quietly w (emit (HttpGet u) w)" for u
    by (rule extends_quietly_emit) (simp add: quiet_def)
  have 2: "extends_quietly (emit (HttpGet u) w) (emit (Print m) (emit (HttpGet u) w))" for u m
    by (rule extends_quietly_emit) (simp add: quiet_def)
  show ?thesis
    unfolding get_huggingface_daily_papers_def Let_def
    by (auto split: sum.splits error.splits intro: 1 extends_quietly_trans [OF 1 2])
qed

lemma scan_feeds_quiet: "extends_quietly w (snd (scan_feeds e k fs news w))"
proof (induction fs arbitrary: k news w)
  case Nil
  show ?case by (simp add: extends_quietly_refl)
next
  case (Cons f fs)
  obtain source url where f: "f = (source, url)" by (cases f)
  have step: "extends_quietly w (emit (ParseFeed url) w)"
    by (rule extends_quietly_emit) (simp add: quiet_def)
  show ?case
    unfolding f scan_feeds.simps Let_def
    by (auto split: sum.splits option.splits intro: extends_quietly_trans [OF step Cons.IH])
qed

lemma news_quiet: "extends_quietly w (snd (get_lab_news e w))"
  by (simp add: get_lab_news_def scan_feeds_quiet)

lemma fetch_candidates_quiet: "extends_quietly w (snd (fetch_candidates e w))"
proof -
  obtain papers w1 where p: "get_huggingface_daily_papers e w = (papers, w1)"
    by (cases "get_huggingface_daily_papers e w")
  have a: "extends_quietly w w1" using papers_quiet [of w e] p by simp
  have b: "extends_quietly w1 (emit ListModels w1)"
    by (rule extends_quietly_emit) (simp add: quiet_def)
  have c: "extends_quietly (emit ListModels w1) (snd (get_lab_news e (emit ListModels w1)))"
    by (rule news_quiet)
  note ab = extends_quietly_trans [OF a b]
  note abc = extends_quietly_trans [OF ab c]
  show ?thesis
    unfolding fetch_candidates_def p Let_def
    using ab abc by (auto split: sum.splits prod.splits)
qed

lemma load_history_quiet: "extends_quietly w (snd (load_history w))"
proof -
  have 1: "extends_quietly w (emit PathExists w)"
    by (rule extends_quietly_emit) (simp add: quiet_def)
  have 2: "extends_quietly (emit PathExists w) (emit OpenRead (emit PathExists w))"
    by (rule extends_quietly_emit) (simp add: quiet_def)
  show ?thesis
    unfolding load_history_def Let_def
    by (auto split: option.splits intro: 1 extends_quietly_trans [OF 1 2])
qed

lemma load_history_file: "load_history w = (r, w1) \<Longrightarrow> history_file w1 = history_file w"
  using load_history_quiet [of w] by (simp add: extends_quietly_def)

lemma fetch_candidates_file: "fetch_candidates e w = (r, w1) \<Longrightarrow> history_file w1 = history_file w"
  using fetch_candidates_quiet [of w e] by (simp add: extends_quietly_def)


text \<open>What the adapters return does not depend on the world they are called in.\<close>

lemma papers_fst: "fst (get_huggingface_daily_papers e w) = fst (get_huggingface_daily_papers e w')"
  by (simp add: get_huggingface_daily_papers_def Let_def split: sum.splits error.splits)

lemma scan_feeds_fst: "fst (scan_feeds e k fs news w) = fst (scan_feeds e k fs news w')"
proof (induction fs arbitrary: k news w w')
  case Nil
  show ?case by simp
next
  case (Cons f fs)
  obtain source url where f: "f = (source, url)" by (cases f)
  show ?case
    unfolding f scan_feeds.simps Let_def
    by (auto split: sum.splits option.splits intro: Cons.IH)
qed

lemma news_fst: "fst (get_lab_news e w) = fst (get_lab_news e w')"
  by (simp add: get_lab_news_def scan_feeds_fst [of e 0 feeds "[]" w w'])

lemma fetch_candidates_fst: "fst (fetch_candidates e w) = fst (fetch_candidates e w')"
proof -
  obtain p1 w1 where a: "get_huggingface_daily_papers e w = (p1, w1)"
    by (cases "get_huggingface_daily_papers e w")
  obtain p2 w2 where b: "get_huggingface_daily_papers e w' = (p2, w2)"
    by (cases "get_huggingface_daily_papers e w'")
  have pp: "p1 = p2" using papers_fst [of e w w'] a b by simp
  obtain n1 v1 where c: "get_lab_news e (emit ListModels w1) = (n1, v1)"
    by (cases "get_lab_news e (emit ListModels w1)")
  obtain n2 v2 where d: "get_lab_news e (emit ListModels w2) = (n2, v2)"
    by (cases "get_lab_news e (emit ListModels w2)")
  have nn: "n1 = n2" using news_fst [of e "emit ListModels w1" "emit ListModels w2"] c d by simp
  show ?thesis
    by (simp add: fetch_candidates_def a b c d pp nn Let_def split: sum.splits)
qed

section \<open>The scenario, evaluated\<close>

lemma scenario_papers:
  "get_huggingface_daily_papers scenario_env w
     = ([paper_A, paper_B], emit (HttpGet ''https://huggingface.co/api/daily_papers?date=2026-01-02'') w)"
  by (simp add: get_huggingface_daily_papers_def papers_try_def scenario_env_def paper_entry_def
        paper_item_def paper_A_def paper_B_def Let_def)

lemma scenario_news: "fst (get_lab_news scenario_env w) = []"
  by (simp add: get_lab_news_def feeds_def scenario_env_def news_entry_def Let_def)

lemma scenario_candidates: "fst (fetch_candidates scenario_env w) = Inr [paper_A, paper_B]"
proof -
  define w2 where
    "w2 = emit ListModels (emit (HttpGet ''https://huggingface.co/api/daily_papers?date=2026-01-02'') w)"
  obtain news w3 where g: "get_lab_news scenario_env w2 = (news, w3)"
    by (cases "get_lab_news scenario_env w2")
  have "news = []" using scenario_news [of w2] g by simp
  moreover have "get_trending_models (models_now scenario_env) (models_listing scenario_env) = Inr []"
    by (simp add: scenario_env_def)
  ultimately show ?thesis
    using g by (simp add: fetch_candidates_def scenario_papers Let_def w2_def)
qed

section \<open>The adapters' contract\<close>

text \<open>
  Claim C1 fails on the code. With every source unreachable the papers adapter and the
  news adapter return the empty list, as the contract says; the models adapter, which
  has no \<^verbatim>\<open>try\<close>, lets the exception of the listing through, \<^verbatim>\<open>main\<close> ends with it,
  and no history is written.
\<close>

theorem models_outage_escapes_adapter:
  "fst (get_huggingface_daily_papers outage_env no_history) = []
   \<and> fst (get_lab_news outage_env no_history) = []
   \<and> get_trending_models (models_now outage_env) (models_listing outage_env) = Inl outage
   \<and> fst (main outage_env no_history) = Some outage
   \<and> history_file (snd (main outage_env no_history)) = None"
proof -
  have p: "get_huggingface_daily_papers outage_env w
             = ([], emit (Print (''Error fetching papers: '' @ ''Max retries exceeded''))
                     (emit (HttpGet ''https://huggingface.co/api/daily_papers?date=2026-01-02'') w))" for w
    by (simp add: get_huggingface_daily_papers_def papers_try_def outage_env_def scenario_env_def
          outage_def Let_def)
  have n: "fst (get_lab_news outage_env w) = []" for w
    by (simp add: get_lab_news_def feeds_def outage_env_def scenario_env_def Let_def)
  have g: "get_trending_models (models_now outage_env) (models_listing outage_env) = Inl outage"
    by (simp add: outage_env_def scenario_env_def)
  have u: "str_truthy (WEBHOOK_URL outage_env)"
    by (simp add: outage_env_def scenario_env_def str_truthy_def hook_def)
  have l: "load_history no_history = (Inr {}, emit PathExists no_history)"
    by (simp add: load_history_def no_history_def Let_def)
  have m: "main outage_env no_history
             = (Some outage, emit ListModels (snd (get_huggingface_daily_papers outage_env (emit PathExists no_history))))"
    using u by (simp add: main_def l fetch_candidates_def p g Let_def)
  show ?thesis
    by (simp add: m p n g) (simp add: no_history_def)
qed

section \<open>History store\<close>

lemma py_set_hashable: "py_set j = Inr S \<Longrightarrow> x \<in> S \<Longrightarrow> hashable x"
  by (cases j) (auto simp: list_all_iff split: if_splits)

lemma load_history_hashable:
  assumes "fst (load_history w) = Inr history" and "x \<in> history"
  shows "hashable x"
  using assms
  by (auto simp: load_history_def Let_def split: option.splits file_content.splits
           dest: py_set_hashable)

lemma load_history_fst:
  "history_file w = history_file w' \<Longrightarrow> fst (load_history w) = fst (load_history w')"
  by (simp add: load_history_def Let_def split: option.splits)


lemma save_history_file:
  "history_file (save_history to_list new_ids old w)
     = Some (Json (JArr (last_n 1000 (to_list (old \<union> new_ids)))))"
  by (simp add: save_history_def Let_def)






text \<open>
  Claim C9, as amended. \<^verbatim>\<open>load_history\<close> returns the empty set when the file does not
  exist and the set of the elements when the file holds an array of hashable values. It
  raises exactly when the file exists and its contents are malformed JSON or a JSON
  value \<^verbatim>\<open>set\<close> does not accept: a number, \<^verbatim>\<open>null\<close>, or an array with an array or
  an object among its elements. The exception is not caught: \<^verbatim>\<open>main\<close> ends with it
  after the file was looked up and opened, and nothing else has happened.
\<close>

theorem load_history_outcomes:
  "(history_file w = None \<longrightarrow> fst (load_history w) = Inr {})
   \<and> (history_file w = Some (Json (JArr xs)) \<and> list_all hashable xs \<longrightarrow>
        fst (load_history w) = Inr (set xs))
   \<and> ((\<exists>err. fst (load_history w) = Inl err) \<longleftrightarrow>
        history_file w = Some Malformed
        \<or> (\<exists>j. history_file w = Some (Json j) \<and> \<not> loadable j))
   \<and> (str_truthy (WEBHOOK_URL e) \<and> fst (load_history w) = Inl err \<longrightarrow>
        main e w = (Some err, w\<lparr>trace := trace w @ [PathExists, OpenRead]\<rparr>))"
proof (intro conjI impI)
  show "fst (load_history w) = Inr {}" if "history_file w = None"
    using that by (simp add: load_history_def Let_def)
next
  show "fst (load_history w) = Inr (set xs)"
    if "history_file w = Some (Json (JArr xs)) \<and> list_all hashable xs"
    using that by (simp add: load_history_def Let_def)
next
  have "(\<exists>err. py_set j = Inl err) \<longleftrightarrow> \<not> loadable j" for j
    by (cases j) auto
  then show "(\<exists>err. fst (load_history w) = Inl err) \<longleftrightarrow>
        history_file w = Some Malformed
        \<or> (\<exists>j. history_file w = Some (Json j) \<and> \<not> loadable j)"
    by (auto simp: load_history_def Let_def split: option.splits file_content.splits)
next
  assume a: "str_truthy (WEBHOOK_URL e) \<and> fst (load_history w) = Inl err"
  then have "history_file w \<noteq> None"
    by (auto simp: load_history_def Let_def split: option.splits)
  then have "snd (load_history w) = w\<lparr>trace := trace w @ [PathExists, OpenRead]\<rparr>"
    by (auto simp: load_history_def Let_def emit_def split: option.splits)
  with a show "main e w = (Some err, w\<lparr>trace := trace w @ [PathExists, OpenRead]\<rparr>)"
    by (cases "load_history w") (simp add: main_def)
qed

theorem load_history_outcomes_witness:
  "fst (load_history malformed_file) = Inl (Exception JSONDecodeError ''Expecting value'')
   \<and> main scenario_env malformed_file
       = (Some (Exception JSONDecodeError ''Expecting value''),
          malformed_file \<lparr> trace := [PathExists, OpenRead] \<rparr>)
   \<and> fst (load_history no_history) = Inr {}
   \<and> fst (load_history seen_AB) = Inr {JStr ''A'', JStr ''B''}"
proof -
  have u: "str_truthy (WEBHOOK_URL scenario_env)"
    by (simp add: scenario_env_def str_truthy_def hook_def)
  have m: "fst (load_history malformed_file) = Inl (Exception JSONDecodeError ''Expecting value'')"
    by (simp add: load_history_def malformed_file_def Let_def)
  show ?thesis
    using load_history_outcomes [of malformed_file "[]" scenario_env
        "Exception JSONDecodeError ''Expecting value''"]
      load_history_outcomes [of no_history "[]" scenario_env outage]
      load_history_outcomes [of seen_AB "[JStr ''A'', JStr ''B'']" scenario_env outage]
      u m
    by (simp add: malformed_file_def no_history_def seen_AB_def)
qed

text \<open>
  The claim as stated fails at a history file that holds the number 5: the contents are
  well-formed JSON, and the load raises \<^verbatim>\<open>TypeError\<close>.
\<close>

theorem number_in_history_file_raises:
  "history_file number_file = Some (Json (JNum 5))
   \<and> history_file number_file \<noteq> Some Malformed
   \<and> fst (load_history number_file) = Inl (Exception TypeError ''object is not iterable'')"
  by (simp add: number_file_def load_history_def Let_def)

section \<open>Digest formatter\<close>

lemma model_lines_digest:
  "\<forall>m \<in> set ms. item_type m = Model \<and> item_likes m \<noteq> None \<Longrightarrow>
   model_lines ms = Inr (map digest_line ms)"
  by (induction ms) (auto simp: digest_line_def model_line_def split: option.splits)

lemma link_lines_digest:
  "\<forall>i \<in> set xs. item_type i \<noteq> Model \<Longrightarrow> map link_line xs = map digest_line xs"
  by (induction xs) (auto simp: digest_line_def split: item_kind.splits)

lemma build_fields_sections:
  assumes "\<forall>i \<in> set items. item_type i = Model \<longrightarrow> item_likes i \<noteq> None"
  shows "build_fields items = Inr (digest_sections items)"
proof -
  have m: "model_lines (filter (\<lambda>i. item_type i = Model) items)
             = Inr (map digest_line (filter (\<lambda>i. item_type i = Model) items))"
    by (rule model_lines_digest) (use assms in auto)
  have n: "map link_line (filter (\<lambda>i. item_type i = News) items)
             = map digest_line (filter (\<lambda>i. item_type i = News) items)"
    by (rule link_lines_digest) auto
  have p: "map link_line (filter (\<lambda>i. item_type i = Paper) items)
             = map digest_line (filter (\<lambda>i. item_type i = Paper) items)"
    by (rule link_lines_digest) auto
  show ?thesis
    by (simp add: build_fields_def digest_sections_def section_for_def Let_def heading_def m n p)
qed

lemma section_names:
  "map field_name (section_for k items) = (if k \<in> item_type ` set items then [heading k] else [])"
  by (auto simp: section_for_def Let_def filter_empty_conv image_iff)

text \<open>
  Claim C4. For every list of new items in which each model carries its \<^verbatim>\<open>likes\<close> (as
  every model the adapter builds does), the fields the formatter builds are the sections
  of the specification: each holds exactly the items of its type in their order in the
  input, a type without items has no section, and the sections stand in the order News,
  Models, Papers whatever the order of the input. These fields are what is posted.
\<close>

theorem digest_partitions_by_type:
  assumes "\<forall>i \<in> set items. item_type i = Model \<longrightarrow> item_likes i \<noteq> None"
  shows "build_fields items = Inr (digest_sections items)
         \<and> map field_name (digest_sections items)
             = map heading (filter (\<lambda>k. k \<in> item_type ` set items) [News, Model, Paper])
         \<and> (items \<noteq> [] \<longrightarrow>
              send_discord_digest e items w
                = (post_raises e,
                   emit (HttpPost (WEBHOOK_URL e)
                           (payload (briefing_date e) (digest_sections items))) w))"
proof (intro conjI impI)
  show "build_fields items = Inr (digest_sections items)"
    using assms by (rule build_fields_sections)
next
  show "map field_name (digest_sections items)
             = map heading (filter (\<lambda>k. k \<in> item_type ` set items) [News, Model, Paper])"
    by (simp add: digest_sections_def section_names)
next
  assume "items \<noteq> []"
  then show "send_discord_digest e items w
                = (post_raises e,
                   emit (HttpPost (WEBHOOK_URL e)
                           (payload (briefing_date e) (digest_sections items))) w)"
    by (simp add: send_discord_digest_def build_fields_sections [OF assms])
qed

theorem digest_partitions_by_type_witness:
  "build_fields mixed_items = Inr (digest_sections mixed_items)
   \<and> map field_name (digest_sections mixed_items) = [models_heading, papers_heading]
   \<and> map field_value (digest_sections mixed_items)
       = [digest_line (model_item (listed ''m1'' None)),
          digest_line paper_B @ [CHR 0x0A] @ digest_line paper_A]"
proof -
  have h: "\<forall>i \<in> set mixed_items. item_type i = Model \<longrightarrow> item_likes i \<noteq> None"
    by (simp add: mixed_items_def paper_A_def paper_B_def model_item_def)
  have v: "map field_value (digest_sections mixed_items)
       = [digest_line (model_item (listed ''m1'' None)),
          digest_line paper_B @ [CHR 0x0A] @ digest_line paper_A]"
    by (simp add: digest_sections_def section_for_def mixed_items_def paper_A_def paper_B_def
          model_item_def Let_def)
  have k: "filter (\<lambda>k. k \<in> item_type ` set mixed_items) [News, Model, Paper] = [Model, Paper]"
    by (simp add: mixed_items_def paper_A_def paper_B_def model_item_def)
  note t = digest_partitions_by_type [OF h, of scenario_env no_history]
  have b: "map field_name (digest_sections mixed_items) = [models_heading, papers_heading]"
    by (simp only: t [THEN conjunct2, THEN conjunct1] k) (simp add: heading_def)
  show ?thesis
    by (intro conjI t [THEN conjunct1] b v)
qed

section \<open>Orchestrator\<close>

text \<open>
  Claim C8. When the webhook URL is unset or empty, \<^verbatim>\<open>main\<close> prints the diagnostic
  and returns; the world is otherwise as it was: no adapter is called, the history file
  is neither looked up, read nor written, and nothing is posted.
\<close>

theorem no_webhook_no_action:
  "WEBHOOK_URL e = None \<or> WEBHOOK_URL e = Some [] \<Longrightarrow>
   main e w = (None, w\<lparr>trace := trace w @ [Print ''No Webhook URL found.'']\<rparr>)"
  by (auto simp: main_def str_truthy_def emit_def)

theorem no_webhook_no_action_witness:
  "main (scenario_env \<lparr> WEBHOOK_URL := None \<rparr>) seen_AB
     = (None, seen_AB \<lparr> trace := [Print ''No Webhook URL found.''] \<rparr>)"
  using no_webhook_no_action [of "scenario_env \<lparr> WEBHOOK_URL := None \<rparr>" seen_AB]
  by (simp add: seen_AB_def)

text \<open>
  Claim C7. In a run in which the history loads, the adapters return and the id of every
  candidate is in the loaded history, \<^verbatim>\<open>main\<close> prints that there is nothing new and
  returns: the history file is what it was, and the run added no post and no write of
  the history file to the trace.
\<close>

theorem no_new_items_no_effects:
  assumes url: "str_truthy (WEBHOOK_URL e)"
    and ld: "fst (load_history w) = Inr history"
    and fc: "fst (fetch_candidates e (snd (load_history w))) = Inr candidates"
    and seen: "\<forall>c \<in> set candidates. JStr (item_id c) \<in> history"
  shows "main e w = (None, emit (Print ''No new items to report.'')
                            (snd (fetch_candidates e (snd (load_history w)))))
         \<and> history_file (snd (main e w)) = history_file w
         \<and> filter is_post (trace (snd (main e w))) = filter is_post (trace w)
         \<and> filter is_write (trace (snd (main e w))) = filter is_write (trace w)"
proof -
  define w1 where "w1 = snd (load_history w)"
  define w2 where "w2 = snd (fetch_candidates e w1)"
  have l: "load_history w = (Inr history, w1)" using ld by (simp add: w1_def prod_eq_iff)
  have f: "fetch_candidates e w1 = (Inr candidates, w2)"
    using fc by (simp add: w1_def w2_def prod_eq_iff)
  have none: "filter (\<lambda>item. JStr (item_id item) \<notin> history) candidates = []"
    using seen by (simp add: filter_empty_conv)
  have m: "main e w = (None, emit (Print ''No new items to report.'') w2)"
    using url by (simp add: main_def l f none)
  have q1: "extends_quietly w w1" unfolding w1_def by (rule load_history_quiet)
  have q2: "extends_quietly w1 w2" unfolding w2_def by (rule fetch_candidates_quiet)
  have q3: "extends_quietly w2 (emit (Print ''No new items to report.'') w2)"
    by (rule extends_quietly_emit) (simp add: quiet_def)
  have q: "extends_quietly w (snd (main e w))"
    unfolding m snd_conv by (rule extends_quietly_trans [OF extends_quietly_trans [OF q1 q2] q3])
  show ?thesis
    using m extends_quietly_filter [OF q] q
    by (simp add: w1_def w2_def extends_quietly_def)
qed

theorem no_new_items_no_effects_witness:
  "str_truthy (WEBHOOK_URL scenario_env)
   \<and> fst (load_history seen_AB) = Inr {JStr ''A'', JStr ''B''}
   \<and> fst (main scenario_env seen_AB) = None
   \<and> history_file (snd (main scenario_env seen_AB)) = history_file seen_AB
   \<and> filter is_post (trace (snd (main scenario_env seen_AB))) = []
   \<and> filter is_write (trace (snd (main scenario_env seen_AB))) = []"
proof -
  have u: "str_truthy (WEBHOOK_URL scenario_env)"
    by (simp add: scenario_env_def str_truthy_def hook_def)
  have l: "fst (load_history seen_AB) = Inr {JStr ''A'', JStr ''B''}"
    by (simp add: load_history_def seen_AB_def Let_def)
  have s: "\<forall>c \<in> set [paper_A, paper_B]. JStr (item_id c) \<in> {JStr ''A'', JStr ''B''}"
    by (simp add: paper_A_def paper_B_def)
  note t = no_new_items_no_effects [OF u l scenario_candidates s]
  have tr: "trace seen_AB = []" by (simp add: seen_AB_def)
  have a: "fst (main scenario_env seen_AB) = None"
    by (simp only: t [THEN conjunct1] fst_conv)
  have c: "filter is_post (trace (snd (main scenario_env seen_AB))) = []"
    by (simp only: t [THEN conjunct2, THEN conjunct2, THEN conjunct1] tr filter.simps)
  have d: "filter is_write (trace (snd (main scenario_env seen_AB))) = []"
    by (simp only: t [THEN conjunct2, THEN conjunct2, THEN conjunct2] tr filter.simps)
  show ?thesis
    by (intro conjI u l a c d t [THEN conjunct2, THEN conjunct1])
qed

section \<open>A second run\<close>

lemma main_new_items:
  assumes u: "str_truthy (WEBHOOK_URL e)"
    and l: "load_history w = (Inr history, w1)"
    and f: "fetch_candidates e w1 = (Inr candidates, w2)"
    and n: "filter (\<lambda>item. JStr (item_id item) \<notin> history) candidates = new_items"
    and ne: "new_items \<noteq> []"
    and likes: "\<forall>i \<in> set new_items. item_type i = Model \<longrightarrow> item_likes i \<noteq> None"
    and post: "post_raises e = None"
  shows "main e w =
           (None, save_history (list_of_set e) ((\<lambda>item. JStr (item_id item)) ` set new_items) history
                    (emit (HttpPost (WEBHOOK_URL e)
                             (payload (briefing_date e) (digest_sections new_items)))
                       (emit (Print (''Found '' @ show_nat (length new_items)
                                      @ '' new items. Sending digest...'')) w2)))"
  using u ne post
  by (simp add: main_def l f n Let_def send_discord_digest_def build_fields_sections [OF likes])

text \<open>
  As long as the union of old and new ids fits under the cap and is enumerated faithfully,
  a run leaves behind a history that holds the id of every candidate: a second run with
  the same candidates finds nothing new.
\<close>

lemma second_run_finds_nothing:
  assumes u: "str_truthy (WEBHOOK_URL e)"
    and l: "fst (load_history w) = Inr history"
    and f: "fst (fetch_candidates e (snd (load_history w))) = Inr candidates"
    and post: "post_raises e = None"
    and likes: "\<forall>i \<in> set candidates. item_type i = Model \<longrightarrow> item_likes i \<noteq> None"
    and ids: "ids = (\<lambda>item. JStr (item_id item))
                      ` set (filter (\<lambda>item. JStr (item_id item) \<notin> history) candidates)"
    and enum: "set (list_of_set e (history \<union> ids)) = history \<union> ids"
    and room: "length (list_of_set e (history \<union> ids)) \<le> 1000"
  shows "fst (main e w) = None
         \<and> (\<exists>history'. fst (load_history (snd (main e w))) = Inr history'
               \<and> filter (\<lambda>item. JStr (item_id item) \<notin> history') candidates = [])"
proof -
  define w1 where "w1 = snd (load_history w)"
  define w2 where "w2 = snd (fetch_candidates e w1)"
  define new_items where
    "new_items = filter (\<lambda>item. JStr (item_id item) \<notin> history) candidates"
  have lw: "load_history w = (Inr history, w1)" using l by (simp add: w1_def prod_eq_iff)
  have fw: "fetch_candidates e w1 = (Inr candidates, w2)"
    using f by (simp add: w1_def w2_def prod_eq_iff)
  show ?thesis
  proof (cases "new_items = []")
    case True
    have m: "main e w = (None, emit (Print ''No new items to report.'') w2)"
      using u True by (simp add: main_def lw fw new_items_def)
    have "history_file (snd (main e w)) = history_file w"
      using load_history_file [OF lw] fetch_candidates_file [OF fw] by (simp add: m)
    then have "fst (load_history (snd (main e w))) = Inr history"
      using load_history_fst [of "snd (main e w)" w] l by simp
    then show ?thesis using m True by (auto simp: new_items_def)
  next
    case False
    have lk: "\<forall>i \<in> set new_items. item_type i = Model \<longrightarrow> item_likes i \<noteq> None"
      using likes by (simp add: new_items_def)
    have n: "filter (\<lambda>item. JStr (item_id item) \<notin> history) candidates = new_items"
      by (simp add: new_items_def)
    note m = main_new_items [OF u lw fw n False lk post]
    define xs where "xs = list_of_set e (history \<union> ids)"
    have i: "(\<lambda>item. JStr (item_id item)) ` set new_items = ids"
      by (simp add: ids new_items_def)
    have keep: "last_n 1000 xs = xs" using room by (simp add: last_n_def xs_def)
    have written: "history_file (snd (main e w)) = Some (Json (JArr xs))"
      by (simp add: m save_history_file i keep xs_def [symmetric])
    have h: "list_all hashable xs"
      unfolding list_all_iff
    proof
      fix x assume "x \<in> set xs"
      then have "x \<in> history \<union> ids" using enum by (simp add: xs_def)
      then show "hashable x"
        using load_history_hashable [OF l] by (auto simp: ids)
    qed
    have ld: "fst (load_history (snd (main e w))) = Inr (history \<union> ids)"
      using written h enum by (simp add: load_history_def Let_def xs_def)
    have "filter (\<lambda>item. JStr (item_id item) \<notin> history \<union> ids) candidates = []"
      by (auto simp: filter_empty_conv ids)
    then show ?thesis using ld m by simp
  qed
qed

text \<open>
  The scenario of the specification: the history holds \<open>A\<close>, the papers adapter returns
  \<open>A\<close> and \<open>B\<close>. One digest is posted, with a single Papers section holding \<open>B\<close>, and the
  history afterwards holds \<open>A\<close> and \<open>B\<close>.
\<close>

lemma specification_scenario:
  "fst (main scenario_env seen_A) = None
   \<and> history_file (snd (main scenario_env seen_A)) = Some (Json (JArr [JStr ''A'', JStr ''B'']))
   \<and> filter is_post (trace (snd (main scenario_env seen_A)))
       = [HttpPost (Some hook)
            (payload ''Jan 02''
               [\<lparr> field_name = papers_heading, field_value = link_line paper_B,
                   field_inline = False \<rparr>])]"
proof -
  define w1 where "w1 = snd (load_history seen_A)"
  define w2 where "w2 = snd (fetch_candidates scenario_env w1)"
  have u: "str_truthy (WEBHOOK_URL scenario_env)"
    by (simp add: scenario_env_def str_truthy_def hook_def)
  have l: "load_history seen_A = (Inr {JStr ''A''}, w1)"
    by (simp add: w1_def load_history_def seen_A_def Let_def)
  have f: "fetch_candidates scenario_env w1 = (Inr [paper_A, paper_B], w2)"
    using scenario_candidates [of w1] by (simp add: w2_def prod_eq_iff)
  have n: "filter (\<lambda>item. JStr (item_id item) \<notin> {JStr ''A''}) [paper_A, paper_B] = [paper_B]"
    by (simp add: paper_A_def paper_B_def)
  have ne: "[paper_B] \<noteq> []" by simp
  have lk: "\<forall>i \<in> set [paper_B]. item_type i = Model \<longrightarrow> item_likes i \<noteq> None"
    by (simp add: paper_B_def)
  have po: "post_raises scenario_env = None" by (simp add: scenario_env_def)
  note m = main_new_items [OF u l f n ne lk po]
  have q: "extends_quietly seen_A w2"
    unfolding w2_def w1_def
    by (rule extends_quietly_trans [OF load_history_quiet fetch_candidates_quiet])
  have fp: "filter is_post (trace w2) = []"
    using extends_quietly_filter [OF q] by (simp add: seen_A_def)
  have s: "digest_sections [paper_B]
             = [\<lparr> field_name = papers_heading, field_value = link_line paper_B,
                   field_inline = False \<rparr>]"
    by (simp add: digest_sections_def section_for_def heading_def digest_line_def paper_B_def Let_def)
  have i: "(\<lambda>item. JStr (item_id item)) ` set [paper_B] = {JStr ''B''}"
    by (simp add: paper_B_def)
  have e: "list_of_set scenario_env = order_as [JStr ''A'', JStr ''B'']"
    "WEBHOOK_URL scenario_env = Some hook" "briefing_date scenario_env = ''Jan 02''"
    by (simp_all add: scenario_env_def)
  show ?thesis
    unfolding m i e
    by (simp add: save_history_def Let_def fp s last_n_def order_as_def)
qed

subsection \<open>After an eviction\<close>

lemma length_seen_1000: "length seen_1000 = 1000"
  by (simp add: seen_1000_def)

lemma hashable_seen_1000: "list_all hashable seen_1000"
  by (simp add: seen_1000_def list_all_iff)

lemma B_not_seen: "JStr ''B'' \<notin> set seen_1000"
  by (auto simp: seen_1000_def)

lemma order_as_all: "order_as (x # xs) (insert x (set xs)) = x # xs"
  by (simp add: order_as_def)

lemma last_n_drop_first: "length xs = n \<Longrightarrow> last_n n (x # xs) = xs"
  by (simp add: last_n_def)

lemma evicting_candidates: "fst (fetch_candidates evicting_env w) = Inr [paper_B]"
proof -
  define w1 where
    "w1 = emit (HttpGet ''https://huggingface.co/api/daily_papers?date=2026-01-02'') w"
  have p: "get_huggingface_daily_papers evicting_env w = ([paper_B], w1)"
    by (simp add: get_huggingface_daily_papers_def papers_try_def evicting_env_def scenario_env_def
          paper_entry_def paper_item_def paper_B_def Let_def w1_def)
  obtain news w3 where g: "get_lab_news evicting_env (emit ListModels w1) = (news, w3)"
    by (cases "get_lab_news evicting_env (emit ListModels w1)")
  have "fst (get_lab_news evicting_env (emit ListModels w1)) = []"
    by (simp add: get_lab_news_def feeds_def evicting_env_def scenario_env_def news_entry_def Let_def)
  then have "news = []" using g by simp
  moreover have "get_trending_models (models_now evicting_env) (models_listing evicting_env) = Inr []"
    by (simp add: evicting_env_def scenario_env_def)
  ultimately show ?thesis
    using g by (simp add: fetch_candidates_def p Let_def)
qed

lemma evicting_run:
  assumes h: "history_file w = Some (Json (JArr seen_1000))"
  shows "fst (main evicting_env w) = None
         \<and> history_file (snd (main evicting_env w)) = Some (Json (JArr seen_1000))
         \<and> length (filter is_post (trace (snd (main evicting_env w))))
             = Suc (length (filter is_post (trace w)))"
proof -
  define w1 where "w1 = snd (load_history w)"
  define w2 where "w2 = snd (fetch_candidates evicting_env w1)"
  have l: "load_history w = (Inr (set seen_1000), w1)"
    using h hashable_seen_1000 by (simp add: w1_def load_history_def Let_def)
  have f: "fetch_candidates evicting_env w1 = (Inr [paper_B], w2)"
    using evicting_candidates [of w1] by (simp add: w2_def prod_eq_iff)
  have n: "filter (\<lambda>item. JStr (item_id item) \<notin> set seen_1000) [paper_B] = [paper_B]"
    using B_not_seen by (simp add: paper_B_def)
  have u: "str_truthy (WEBHOOK_URL evicting_env)"
    by (simp add: evicting_env_def scenario_env_def str_truthy_def hook_def)
  have po: "post_raises evicting_env = None"
    by (simp add: evicting_env_def scenario_env_def)
  have lk: "\<forall>i \<in> set [paper_B]. item_type i = Model \<longrightarrow> item_likes i \<noteq> None"
    by (simp add: paper_B_def)
  have ls: "list_of_set evicting_env = order_as (JStr ''B'' # seen_1000)"
    by (simp add: evicting_env_def)
  have ids: "(\<lambda>item. JStr (item_id item)) ` set [paper_B] = {JStr ''B''}"
    by (simp add: paper_B_def)
  have ne: "[paper_B] \<noteq> []" by simp
  have m: "main evicting_env w =
           (None, save_history (order_as (JStr ''B'' # seen_1000)) {JStr ''B''} (set seen_1000)
                    (emit (HttpPost (WEBHOOK_URL evicting_env)
                             (payload (briefing_date evicting_env) (digest_sections [paper_B])))
                       (emit (Print (''Found '' @ show_nat (length [paper_B])
                                      @ '' new items. Sending digest...'')) w2)))"
    using main_new_items [OF u l f n ne lk po] unfolding ls ids .
  have q: "extends_quietly w w2"
    unfolding w2_def w1_def
    by (rule extends_quietly_trans [OF load_history_quiet fetch_candidates_quiet])
  have fp: "filter is_post (trace w2) = filter is_post (trace w)"
    using extends_quietly_filter [OF q] by simp
  show ?thesis
    unfolding m
    by (simp add: save_history_def Let_def order_as_all last_n_drop_first length_seen_1000 fp)
qed

text \<open>
  Claim C2 fails on the code. The history file holds 1000 ids and the papers endpoint
  returns a paper \<open>B\<close> that is not among them. The first run posts \<open>B\<close> and saves the
  last 1000 elements of the union of old and new ids; iterated with \<open>B\<close> first, the
  union loses \<open>B\<close>, and the file is what it was. The second run, with the same adapter
  outputs, finds \<open>B\<close> new again and posts it a second time.
\<close>

theorem eviction_resends_item:
  "fst (main evicting_env full_history) = None
   \<and> history_file (snd (main evicting_env full_history)) = history_file full_history
   \<and> fst (fetch_candidates evicting_env (snd (main evicting_env full_history))) = Inr [paper_B]
   \<and> length (filter is_post (trace (snd (main evicting_env full_history)))) = 1
   \<and> length (filter is_post
        (trace (snd (main evicting_env (snd (main evicting_env full_history)))))) = 2"
proof -
  have h0: "history_file full_history = Some (Json (JArr seen_1000))"
    by (simp add: full_history_def)
  have t0: "trace full_history = []" by (simp add: full_history_def)
  note r1 = evicting_run [OF h0]
  note r2 = evicting_run [OF r1 [THEN conjunct2, THEN conjunct1]]
  show ?thesis
    using r1 r2 by (simp add: h0 t0 evicting_candidates)
qed

end
